theory Spec2Isabelle
  imports Main
begin

section \<open>Values, errors and the remote API\<close>

text \<open>
  The adapter passes untyped JavaScript values around (\<open>Record<string, any>\<close>, the
  \<open>data\<close> of a response, the result of a send). They are modelled by a small value
  type. \<open>JUndefined\<close> is JavaScript's \<open>undefined\<close>, which is what an \<open>async\<close>
  function without a \<open>return\<close> resolves to.
\<close>

datatype json =
    JUndefined
  | JNull
  | JBool bool
  | JNum int
  | JStr string
  | JArr "json list"
  | JObj "(string \<times> json) list"

text \<open>
  Exceptions are values. \<open>SenderError args url retcode selfId\<close> is the class of
  \<open>api.ts\<close>; \<open>TypeError\<close> is what the runtime raises on a property read of
  \<open>undefined\<close> or a call of a non-function; \<open>Thrown\<close> is any other exception
  (a transport failure of the HTTP client, an error of the host framework).
\<close>

datatype error =
    SenderError json string int int
  | TypeError
  | Thrown string

text \<open>\<open>CQResponse\<close>; the optional \<open>echo\<close> is never read by the adapter. The
  \<open>retcode\<close> is an integer code of the remote API.\<close>

record CQResponse =
  status :: string
  retcode :: int
  data :: json

text \<open>
  Everything observable that a call does is appended to a trace: the remote requests
  (\<open>_request\<close>), the entries into \<open>_sendMsg\<close> and \<open>_sendPhoto\<close>, and the host
  events of \<open>sendGroupMsg\<close> and \<open>sendPrivateMsg\<close>.
\<close>

datatype event =
    Request string json
  | SendMsgCall json string
  | SendPhotoCall json string "string option"
  | Bail string
  | Emit string json

text \<open>
  The functions imported from \<open>koishi-utils\<close> are parameters of the model:
  \<open>camelCase\<close>, \<open>snakeCase\<close> and \<open>CQCode.parseAll\<close>.
\<close>

datatype node = Text string | Code string "(string \<times> string) list"

record utils =
  camelCase :: "json \<Rightarrow> json"
  snakeCase :: "json \<Rightarrow> json"
  parseAll :: "string \<Rightarrow> node list"

text \<open>
  The \<open>Bot\<close> handle. \<open>_request\<close> is optional in the declaration (it is installed by
  the server's \<open>__listen\<close>), hence the option. The remote end may answer the same
  request differently over time, so it sees the trace so far; it either throws or
  returns a response.
\<close>

record Bot =
  selfId :: int
  ready :: bool
  request :: "(event list \<Rightarrow> string \<Rightarrow> json \<Rightarrow> error + CQResponse) option"

type_synonym 'a io = "event list \<Rightarrow> (error + 'a) \<times> event list"

section \<open>\<open>Bot.prototype.get\<close>\<close>

definition get :: "utils \<Rightarrow> Bot \<Rightarrow> string \<Rightarrow> json \<Rightarrow> bool \<Rightarrow> json io" where
  "get u b action params silent tr =
     (case request b of
        None \<Rightarrow> (Inl TypeError, tr)
      | Some req \<Rightarrow>
          (let tr' = tr @ [Request action (snakeCase u params)] in
           case req tr action (snakeCase u params) of
             Inl e \<Rightarrow> (Inl e, tr')
           | Inr response \<Rightarrow>
               if retcode response = 0 \<and> \<not> silent then
                 (Inr (camelCase u (data response)), tr')
               else if retcode response < 0 \<and> \<not> silent then
                 (Inl (SenderError params action (retcode response) (selfId b)), tr')
               else if retcode response > 1 then
                 (Inl (SenderError params action (retcode response) (selfId b)), tr')
               else (Inr JUndefined, tr')))"

section \<open>Sending messages\<close>

text \<open>JavaScript truthiness of a value that is a string or \<open>undefined\<close>.\<close>

fun truthy :: "string option \<Rightarrow> bool" where
  "truthy None = False"
| "truthy (Some s) = (s \<noteq> [])"

text \<open>
  \<open>_sendMsg\<close> and \<open>_sendPhoto\<close> (an Isabelle name cannot start with an underscore,
  hence the prefix). Both \<open>await\<close> the call of \<open>get\<close> and have no \<open>return\<close> after
  it: when \<open>get\<close> does not throw they resolve to \<open>undefined\<close>.
\<close>

definition priv_sendMsg :: "utils \<Rightarrow> Bot \<Rightarrow> json \<Rightarrow> string \<Rightarrow> json io" where
  "priv_sendMsg u b chatId message tr =
     (let tr1 = tr @ [SendMsgCall chatId message] in
      if message = [] then (Inr JUndefined, tr1)
      else
        case get u b ''send_message''
               (JObj [(''chatId'', chatId), (''message'', JStr message)]) False tr1 of
          (Inl e, tr2) \<Rightarrow> (Inl e, tr2)
        | (Inr v, tr2) \<Rightarrow> (Inr JUndefined, tr2))"

definition priv_sendPhoto :: "utils \<Rightarrow> Bot \<Rightarrow> json \<Rightarrow> string \<Rightarrow> string option \<Rightarrow> json io" where
  "priv_sendPhoto u b chatId caption photo tr =
     (let tr1 = tr @ [SendPhotoCall chatId caption photo] in
      case photo of
        None \<Rightarrow> (Inr JUndefined, tr1)
      | Some ph \<Rightarrow>
          if ph = [] then (Inr JUndefined, tr1)
          else
            (case get u b ''send_photo''
                    (JObj [(''chatId'', chatId), (''caption'', JStr caption),
                           (''photo'', JStr ph)])
                    False tr1 of
               (Inl e, tr2) \<Rightarrow> (Inl e, tr2)
             | (Inr v, tr2) \<Rightarrow> (Inr JUndefined, tr2)))"

text \<open>
  The \<open>payload\<close> object of \<open>sendMsg\<close>. \<open>image\<close> starts as the empty string and is
  later assigned \<open>node.data.url\<close>, which is \<open>undefined\<close> (\<open>None\<close>) when the code
  has no \<open>url\<close> attribute.
\<close>

record payload =
  chatId :: json
  message :: string
  image' :: "string option"

text \<open>
  The \<open>for\<close> loop of \<open>sendMsg\<close> over the parsed chain, threading \<open>payload\<close>,
  \<open>result\<close> and the trace; a throwing \<open>_sendPhoto\<close> leaves the loop.
\<close>

fun sendMsg_loop ::
  "utils \<Rightarrow> Bot \<Rightarrow> json \<Rightarrow> node list \<Rightarrow> payload \<Rightarrow> json \<Rightarrow> (payload \<times> json) io" where
  "sendMsg_loop u b cid [] p result tr = (Inr (p, result), tr)"
| "sendMsg_loop u b cid (Text s # ns) p result tr =
     sendMsg_loop u b cid ns (p\<lparr>message := message p @ s\<rparr>) result tr"
| "sendMsg_loop u b cid (Code t d # ns) p result tr =
     (if t = ''image'' then
        (if truthy (image' p) then
           (case priv_sendPhoto u b cid (message p) (image' p) tr of
              (Inl e, tr1) \<Rightarrow> (Inl e, tr1)
            | (Inr r, tr1) \<Rightarrow>
                sendMsg_loop u b cid ns
                  (p\<lparr>message := [], image' := map_of d ''url''\<rparr>) r tr1)
         else sendMsg_loop u b cid ns (p\<lparr>image' := map_of d ''url''\<rparr>) result tr)
      else sendMsg_loop u b cid ns p result tr)"

text \<open>Reading a property: of \<open>undefined\<close> or \<open>null\<close> it is a \<open>TypeError\<close>; a value
  without the property gives \<open>undefined\<close>.\<close>

fun getprop :: "json \<Rightarrow> string \<Rightarrow> error + json" where
  "getprop JUndefined k = Inl TypeError"
| "getprop JNull k = Inl TypeError"
| "getprop (JObj kvs) k = Inr (case map_of kvs k of None \<Rightarrow> JUndefined | Some v \<Rightarrow> v)"
| "getprop v k = Inr JUndefined"

text \<open>\<open>sendMsg\<close> after \<open>CQCode.parseAll\<close>: the loop, the final flush and
  \<open>return result.messageId\<close>.\<close>

definition sendMsg_chain :: "utils \<Rightarrow> Bot \<Rightarrow> json \<Rightarrow> node list \<Rightarrow> json io" where
  "sendMsg_chain u b cid chain tr =
     (case sendMsg_loop u b cid chain \<lparr>chatId = cid, message = [], image' = Some []\<rparr>
             JUndefined tr of
        (Inl e, tr1) \<Rightarrow> (Inl e, tr1)
      | (Inr (p, result), tr1) \<Rightarrow>
          if truthy (image' p) then
            (case priv_sendPhoto u b cid (message p) (image' p) tr1 of
               (Inl e, tr2) \<Rightarrow> (Inl e, tr2)
             | (Inr r, tr2) \<Rightarrow> (getprop r ''messageId'', tr2))
          else if message p \<noteq> [] then
            (case priv_sendMsg u b cid (message p) tr1 of
               (Inl e, tr2) \<Rightarrow> (Inl e, tr2)
             | (Inr r, tr2) \<Rightarrow> (getprop r ''messageId'', tr2))
          else (getprop result ''messageId'', tr1))"

definition sendMsg :: "utils \<Rightarrow> Bot \<Rightarrow> json \<Rightarrow> string \<Rightarrow> json io" where
  "sendMsg u b cid msg tr = sendMsg_chain u b cid (parseAll u msg) tr"

text \<open>
  The session of an outgoing message and the host's part in \<open>sendGroupMsg\<close> and
  \<open>sendPrivateMsg\<close>: \<open>createSession\<close> and \<open>app.bail\<close> belong to the host framework
  and are parameters; a listener of \<open>before-send\<close> may change the session.
\<close>

record send_session =
  sessionMessage :: string
  messageId :: json

record host =
  createSession :: "string \<Rightarrow> string \<Rightarrow> json \<Rightarrow> string \<Rightarrow> send_session"
  bail :: "send_session \<Rightarrow> string \<Rightarrow> bool \<times> send_session"

definition sendGroupMsg :: "host \<Rightarrow> utils \<Rightarrow> Bot \<Rightarrow> json \<Rightarrow> string \<Rightarrow> json io" where
  "sendGroupMsg h u b cid msg tr =
     (if msg = [] then (Inr JUndefined, tr)
      else
        let session = createSession h ''group'' ''group'' cid msg;
            (vetoed, session1) = bail h session ''before-send'';
            tr1 = tr @ [Bail ''before-send'']
        in if vetoed then (Inr JUndefined, tr1)
           else
             case sendMsg u b cid (sessionMessage session1) tr1 of
               (Inl e, tr2) \<Rightarrow> (Inl e, tr2)
             | (Inr mid, tr2) \<Rightarrow> (Inr mid, tr2 @ [Emit ''send'' mid]))"

definition sendPrivateMsg :: "host \<Rightarrow> utils \<Rightarrow> Bot \<Rightarrow> json \<Rightarrow> string \<Rightarrow> json io" where
  "sendPrivateMsg h u b uid msg tr =
     (if msg = [] then (Inr JUndefined, tr)
      else
        let session = createSession h ''private'' ''user'' uid msg;
            (vetoed, session1) = bail h session ''before-send'';
            tr1 = tr @ [Bail ''before-send'']
        in if vetoed then (Inr JUndefined, tr1)
           else
             case sendMsg u b uid (sessionMessage session1) tr1 of
               (Inl e, tr2) \<Rightarrow> (Inl e, tr2)
             | (Inr mid, tr2) \<Rightarrow> (Inr mid, tr2 @ [Emit ''send'' mid]))"

section \<open>Status probe\<close>

text \<open>The members of the host's \<open>BotStatusCode\<close> that the adapter returns.\<close>

datatype BotStatusCode = GOOD | BOT_IDLE | NET_ERROR

definition getStatusCode :: "utils \<Rightarrow> Bot \<Rightarrow> event list \<Rightarrow> BotStatusCode \<times> event list" where
  "getStatusCode u b tr =
     (if \<not> ready b then (BOT_IDLE, tr)
      else
        case get u b ''getMe'' (JObj []) False tr of
          (Inr v, tr1) \<Rightarrow> (GOOD, tr1)
        | (Inl e, tr1) \<Rightarrow> (NET_ERROR, tr1))"

section \<open>The webhook server\<close>

text \<open>The options of the app that the server reads.\<close>

record BotOptions =
  server :: "string option"
  type :: "string option"

record AppOptions =
  port :: "int option"
  bots :: "BotOptions list"
  quickOperation :: "int option"

definition has_server :: "BotOptions \<Rightarrow> bool" where
  "has_server bo = truthy (server bo)"

definition has_type :: "BotOptions \<Rightarrow> bool" where
  "has_type bo = truthy (type bo)"

text \<open>
  Modelled from the spec: \<open>assertProperty\<close> of \<open>koishi-utils\<close>, which is not among
  the sources. The spec says that the constructor validates that a port is configured;
  the helper is given the value of the property and its name, and throws when the
  property is not configured.
\<close>

definition assertProperty :: "'a option \<Rightarrow> string \<Rightarrow> error + 'a" where
  "assertProperty v key =
     (case v of None \<Rightarrow> Inl (Thrown (''missing configuration '' @ key)) | Some x \<Rightarrow> Inr x)"

text \<open>
  The constructor. \<open>super\<close> is the constructor of the host's \<open>Server\<close> class, a
  parameter. The result is the lines written by \<open>logger.info\<close> and the outcome:
  an exception raised before \<open>super(app)\<close>, or whatever \<open>super(app)\<close> gives.
  \<open>bots.find\<close> gives \<open>undefined\<close> when no bot has a truthy \<open>server\<close>, and
  \<open>bot.type\<close> is then a \<open>TypeError\<close>.
\<close>

definition TelegramHTTPServer_constructor ::
  "(AppOptions \<Rightarrow> error + 's) \<Rightarrow> AppOptions \<Rightarrow> string list \<times> (error + 's)" where
  "TelegramHTTPServer_constructor super options =
     (case assertProperty (port options) ''port'' of
        Inl e \<Rightarrow> ([], Inl e)
      | Inr p \<Rightarrow>
          (case find has_server (bots options) of
             None \<Rightarrow> ([], Inl TypeError)
           | Some bo \<Rightarrow>
               ((if \<not> has_type bo then [''infer type as telegram''] else []),
                super options)))"

text \<open>
  The route handler of \<open>_listen\<close> works on the Koa context, the session and a timer.
  A property of the session is absent, \<open>null\<close>, or the response closure created by
  the handler (one request is modelled, so there is one such closure).
\<close>

datatype propval = PNull | PCallback

record 'm Session =
  content :: 'm
  props :: "string \<Rightarrow> propval option"

datatype timer = NoTimer | Armed int | Cleared | Fired

record 'm server_state =
  ctx_status :: "nat option"
  ctx_respond :: bool
  res_head :: "(nat \<times> (string \<times> string) list) option"
  res_body :: "string list"
  res_ended :: bool
  write_after_end :: bool
  meta :: "'m Session option"
  timer_state :: timer
  dispatched :: "'m Session list"

text \<open>
  Modelled from the spec: \<open>defineProperty\<close> of \<open>koishi-utils\<close>, which is not among
  the sources. The spec says that the handler attaches a callback to the session; the
  helper sets the named property of the object to the value.
\<close>

definition defineProperty :: "'m Session \<Rightarrow> string \<Rightarrow> propval \<Rightarrow> 'm Session" where
  "defineProperty obj key v = obj\<lparr>props := (props obj)(key \<mapsto> v)\<rparr>"

text \<open>An assignment \<open>meta.key = v\<close> to the session held by the state.\<close>

definition assign_meta :: "string \<Rightarrow> propval \<Rightarrow> 'm server_state \<Rightarrow> 'm server_state" where
  "assign_meta key v s =
     (case meta s of
        None \<Rightarrow> s
      | Some m \<Rightarrow> s\<lparr>meta := Some (m\<lparr>props := (props m)(key \<mapsto> v)\<rparr>)\<rparr>)"

text \<open>\<open>ctx.res.write\<close> and \<open>ctx.res.end\<close> of the platform: a chunk written after
  the end is not sent and is reported as an error of the stream.\<close>

definition res_write :: "string \<Rightarrow> 'm server_state \<Rightarrow> 'm server_state" where
  "res_write chunk s =
     (if res_ended s then s\<lparr>write_after_end := True\<rparr>
      else s\<lparr>res_body := res_body s @ [chunk]\<rparr>)"

definition res_end :: "'m server_state \<Rightarrow> 'm server_state" where
  "res_end s = s\<lparr>res_ended := True\<rparr>"

definition clearTimeout :: "'m server_state \<Rightarrow> 'm server_state" where
  "clearTimeout s = (case timer_state s of Armed q \<Rightarrow> s\<lparr>timer_state := Cleared\<rparr> | _ \<Rightarrow> s)"

text \<open>The body of the closure passed to \<open>defineProperty\<close>; \<open>JSON.stringify\<close> is a
  parameter.\<close>

definition response_callback ::
  "utils \<Rightarrow> (json \<Rightarrow> string) \<Rightarrow> json \<Rightarrow> 'm server_state \<Rightarrow> 'm server_state" where
  "response_callback u stringify d s =
     res_end (res_write (stringify (snakeCase u d))
       (clearTimeout (assign_meta ''_response'' PNull s)))"

text \<open>The body of the closure passed to \<open>setTimeout\<close>.\<close>

definition timer_callback :: "'m server_state \<Rightarrow> 'm server_state" where
  "timer_callback s = res_end (assign_meta ''_response'' PNull s)"

text \<open>The platform runs the timer's closure when the delay has passed, unless the
  timer was cleared.\<close>

definition timer_expiry :: "'m server_state \<Rightarrow> 'm server_state" where
  "timer_expiry s =
     (case timer_state s of
        Armed q \<Rightarrow> timer_callback (s\<lparr>timer_state := Fired\<rparr>)
      | _ \<Rightarrow> s)"

text \<open>A handler of the host calling \<open>session[key](payload)\<close>: a \<open>TypeError\<close> unless
  the property holds the closure.\<close>

definition call_session ::
  "utils \<Rightarrow> (json \<Rightarrow> string) \<Rightarrow> string \<Rightarrow> json \<Rightarrow> 'm server_state
     \<Rightarrow> error + 'm server_state" where
  "call_session u stringify key d s =
     (case meta s of
        None \<Rightarrow> Inl TypeError
      | Some m \<Rightarrow>
          (case props m key of
             Some PCallback \<Rightarrow> Inr (response_callback u stringify d s)
           | _ \<Rightarrow> Inl TypeError))"

text \<open>
  The route handler registered by \<open>_listen\<close>. \<open>prepare\<close> is the host's parser of the
  request body, a parameter; \<open>this.dispatch\<close> is recorded in \<open>dispatched\<close>.
  \<open>quickOperation > 0\<close> is false when the option is not set.
\<close>

definition listen_handler ::
  "('b \<Rightarrow> 'm Session option) \<Rightarrow> AppOptions \<Rightarrow> 'b \<Rightarrow> 'm server_state \<Rightarrow> 'm server_state" where
  "listen_handler prepare options body s =
     (case prepare body of
        None \<Rightarrow> s\<lparr>ctx_status := Some 403\<rparr>
      | Some m \<Rightarrow>
          (case quickOperation options of
             None \<Rightarrow> s\<lparr>meta := Some m, dispatched := dispatched s @ [m]\<rparr>
           | Some q \<Rightarrow>
               if q > 0 then
                 (let m1 = defineProperty m ''$response'' PCallback in
                  s\<lparr>ctx_respond := False,
                    res_head := Some (200, [(''Content-Type'', ''application/json'')]),
                    meta := Some m1,
                    timer_state := Armed q,
                    dispatched := dispatched s @ [m1]\<rparr>)
               else s\<lparr>meta := Some m, dispatched := dispatched s @ [m]\<rparr>))"

section \<open>Observations on traces and chains\<close>

fun is_photo_call :: "event \<Rightarrow> bool" where
  "is_photo_call (SendPhotoCall c m ph) = True"
| "is_photo_call ev = False"

fun is_msg_call :: "event \<Rightarrow> bool" where
  "is_msg_call (SendMsgCall c m) = True"
| "is_msg_call ev = False"

fun is_request :: "event \<Rightarrow> bool" where
  "is_request (Request a ps) = True"
| "is_request ev = False"

definition photo_calls :: "event list \<Rightarrow> nat" where
  "photo_calls tr = length (filter is_photo_call tr)"

definition msg_calls :: "event list \<Rightarrow> nat" where
  "msg_calls tr = length (filter is_msg_call tr)"

definition remote_calls :: "event list \<Rightarrow> nat" where
  "remote_calls tr = length (filter is_request tr)"

fun is_text :: "node \<Rightarrow> bool" where
  "is_text (Text s) = True"
| "is_text (Code t d) = False"

fun is_image :: "node \<Rightarrow> bool" where
  "is_image (Code t d) = (t = ''image'')"
| "is_image (Text s) = False"

text \<open>\<open>node.data.url\<close> of a code.\<close>

fun image_url :: "node \<Rightarrow> string option" where
  "image_url (Code t d) = map_of d ''url''"
| "image_url (Text s) = None"

definition has_url :: "node \<Rightarrow> bool" where
  "has_url n = truthy (image_url n)"

definition text_or_image :: "node \<Rightarrow> bool" where
  "text_or_image n = (is_text n \<or> is_image n)"

text \<open>The text of a chain: its text segments in order, joined; codes add nothing.\<close>

fun texts :: "node list \<Rightarrow> string" where
  "texts [] = []"
| "texts (Text s # ns) = s @ texts ns"
| "texts (Code t d # ns) = texts ns"

section \<open>Example configurations\<close>

text \<open>Case conversion that leaves a value alone (as on keys that have one word), and a
  parser for messages without codes, which are one text segment.\<close>

definition utils0 :: utils where
  "utils0 = \<lparr>camelCase = (\<lambda>v. v), snakeCase = (\<lambda>v. v),
              parseAll = (\<lambda>s. if s = [] then [] else [Text s])\<rparr>"

text \<open>A remote end that answers every request with the given retcode, and one that is
  unreachable.\<close>

definition remote_code :: "int \<Rightarrow> event list \<Rightarrow> string \<Rightarrow> json \<Rightarrow> error + CQResponse" where
  "remote_code c tr action params =
     Inr \<lparr>status = ''ok'', retcode = c, data = JObj [(''messageId'', JNum 42)]\<rparr>"

definition remote_down :: "event list \<Rightarrow> string \<Rightarrow> json \<Rightarrow> error + CQResponse" where
  "remote_down tr action params = Inl (Thrown ''ECONNREFUSED'')"

definition bot_with :: "(event list \<Rightarrow> string \<Rightarrow> json \<Rightarrow> error + CQResponse) \<Rightarrow> Bot" where
  "bot_with req = \<lparr>selfId = 7, ready = True, request = Some req\<rparr>"

text \<open>A parser stand-in that yields a given chain, for statements about parsed chains.\<close>

definition utils_chain :: "node list \<Rightarrow> utils" where
  "utils_chain chain = \<lparr>camelCase = (\<lambda>v. v), snakeCase = (\<lambda>v. v), parseAll = (\<lambda>s. chain)\<rparr>"

text \<open>Every text segment of the chain has an image next to it.\<close>

fun text_adjacent :: "node option \<Rightarrow> node list \<Rightarrow> bool" where
  "text_adjacent prev [] = True"
| "text_adjacent prev (n # ns) =
     ((if is_text n then
         (case prev of Some q \<Rightarrow> is_image q | None \<Rightarrow> False)
         \<or> (case ns of m # ms \<Rightarrow> is_image m | [] \<Rightarrow> False)
       else True)
      \<and> text_adjacent (Some n) ns)"

text \<open>Two images with text around them, both with a \<open>url\<close>; and the same chain with a
  first image addressed by \<open>file\<close>, which has no \<open>url\<close>.\<close>

definition chain_urls :: "node list" where
  "chain_urls =
     [Text ''a'', Code ''image'' [(''url'', ''u1'')], Text ''b'',
      Code ''image'' [(''url'', ''u2'')], Text ''c'']"

definition chain_file :: "node list" where
  "chain_file =
     [Text ''a'', Code ''image'' [(''file'', ''f1'')], Text ''b'',
      Code ''image'' [(''url'', ''u2'')], Text ''c'']"

text \<open>A chain with a mention and a face among text and an image.\<close>

definition chain_mixed :: "node list" where
  "chain_mixed =
     [Code ''at'' [(''qq'', ''5'')], Text ''a'', Code ''face'' [(''id'', ''1'')],
      Code ''image'' [(''url'', ''u1'')]]"

text \<open>Options of an app, a superclass constructor that succeeds, a parser of request
  bodies that rejects the empty body, the state before a request and a serializer.\<close>

definition options_with :: "int option \<Rightarrow> BotOptions list \<Rightarrow> int option \<Rightarrow> AppOptions" where
  "options_with p bs q = \<lparr>port = p, bots = bs, quickOperation = q\<rparr>"

definition bot_typed :: BotOptions where
  "bot_typed = \<lparr>server = Some ''http://localhost:8443'', type = Some ''telegram''\<rparr>"

definition bot_untyped :: BotOptions where
  "bot_untyped = \<lparr>server = Some ''http://localhost:8443'', type = None\<rparr>"

definition bot_serverless :: BotOptions where
  "bot_serverless = \<lparr>server = None, type = None\<rparr>"

definition super_ok :: "AppOptions \<Rightarrow> error + unit" where
  "super_ok options = Inr ()"

definition prepare0 :: "string \<Rightarrow> string Session option" where
  "prepare0 body = (if body = [] then None else Some \<lparr>content = body, props = Map.empty\<rparr>)"

definition state0 :: "string server_state" where
  "state0 = \<lparr>ctx_status = None, ctx_respond = True, res_head = None, res_body = [],
             res_ended = False, write_after_end = False, meta = None,
             timer_state = NoTimer, dispatched = []\<rparr>"

definition stringify0 :: "json \<Rightarrow> string" where
  "stringify0 v = (case v of JStr s \<Rightarrow> s | _ \<Rightarrow> ''{}'')"

text \<open>The value of a property of the session held by the state.\<close>

definition meta_prop :: "string \<Rightarrow> 'm server_state \<Rightarrow> propval option" where
  "meta_prop key s = (case meta s of None \<Rightarrow> None | Some m \<Rightarrow> props m key)"

section \<open>Auxiliary facts\<close>

lemma priv_sendPhoto_result:
  "fst (priv_sendPhoto u b cid cap ph tr) = Inr r \<Longrightarrow> r = JUndefined"
  by (auto simp: priv_sendPhoto_def Let_def split: option.splits if_splits prod.splits sum.splits)

lemma priv_sendMsg_result:
  "fst (priv_sendMsg u b cid m tr) = Inr r \<Longrightarrow> r = JUndefined"
  by (auto simp: priv_sendMsg_def Let_def split: option.splits if_splits prod.splits sum.splits)

lemma priv_sendPhoto_eq:
  "priv_sendPhoto u b cid cap ph tr =
     (case ph of
        None \<Rightarrow> (Inr JUndefined, tr @ [SendPhotoCall cid cap ph])
      | Some s \<Rightarrow>
          if s = [] then (Inr JUndefined, tr @ [SendPhotoCall cid cap ph])
          else
            (case fst (get u b ''send_photo''
                        (JObj [(''chatId'', cid), (''caption'', JStr cap), (''photo'', JStr s)])
                        False (tr @ [SendPhotoCall cid cap ph])) of
               Inl e \<Rightarrow> Inl e
             | Inr v \<Rightarrow> Inr JUndefined,
             snd (get u b ''send_photo''
                    (JObj [(''chatId'', cid), (''caption'', JStr cap), (''photo'', JStr s)])
                    False (tr @ [SendPhotoCall cid cap ph]))))"
  by (simp add: priv_sendPhoto_def Let_def split: option.splits prod.splits sum.splits)

lemma priv_sendMsg_eq:
  "priv_sendMsg u b cid m tr =
     (if m = [] then (Inr JUndefined, tr @ [SendMsgCall cid m])
      else
        (case fst (get u b ''send_message'' (JObj [(''chatId'', cid), (''message'', JStr m)])
                    False (tr @ [SendMsgCall cid m])) of
           Inl e \<Rightarrow> Inl e
         | Inr v \<Rightarrow> Inr JUndefined,
         snd (get u b ''send_message'' (JObj [(''chatId'', cid), (''message'', JStr m)])
                False (tr @ [SendMsgCall cid m]))))"
  by (simp add: priv_sendMsg_def Let_def split: option.splits prod.splits sum.splits)

lemma loop_result:
  "fst (sendMsg_loop u b cid ns p r tr) = Inr (p', r') \<Longrightarrow> r = JUndefined \<Longrightarrow> r' = JUndefined"
proof (induction u b cid ns p r tr rule: sendMsg_loop.induct)
  case (3 u b cid t d ns p result tr)
  show ?case
  proof (cases "t = ''image'' \<and> truthy (image' p)")
    case True
    obtain x tr1 where ph: "priv_sendPhoto u b cid (message p) (image' p) tr = (x, tr1)"
      by (cases "priv_sendPhoto u b cid (message p) (image' p) tr")
    show ?thesis
    proof (cases x)
      case (Inl e)
      with ph True "3.prems" show ?thesis by simp
    next
      case (Inr r0)
      with ph have "r0 = JUndefined"
        using priv_sendPhoto_result[of u b cid "message p" "image' p" tr r0] by simp
      with ph True Inr "3.prems" "3.IH"(1) show ?thesis by simp
    qed
  next
    case False
    with 3 show ?thesis by (auto split: if_splits)
  qed
qed auto


lemma texts_append: "texts (xs @ ys) = texts xs @ texts ys"
  by (induction xs rule: texts.induct) simp_all

lemma get_filter:
  "filter is_photo_call (snd (get u b action params silent tr)) = filter is_photo_call tr"
  "filter is_msg_call (snd (get u b action params silent tr)) = filter is_msg_call tr"
  by (auto simp: get_def Let_def split: option.splits sum.splits)

lemma priv_sendPhoto_filter:
  "filter is_photo_call (snd (priv_sendPhoto u b cid cap ph tr))
     = filter is_photo_call tr @ [SendPhotoCall cid cap ph]"
  "filter is_msg_call (snd (priv_sendPhoto u b cid cap ph tr)) = filter is_msg_call tr"
  by (simp_all add: priv_sendPhoto_eq get_filter split: option.splits)

lemma loop_no_image:
  "filter is_image ns = [] \<Longrightarrow>
   sendMsg_loop u b cid (ns @ rest) p r tr
     = sendMsg_loop u b cid rest (p\<lparr>message := message p @ texts ns\<rparr>) r tr"
proof (induction ns arbitrary: p)
  case Nil
  then show ?case by simp
next
  case (Cons n ns)
  show ?case
  proof (cases n)
    case (Text s)
    with Cons.prems Cons.IH [of "p\<lparr>message := message p @ s\<rparr>"] show ?thesis by simp
  next
    case (Code t d)
    with Cons.prems have "t \<noteq> ''image''" and "filter is_image ns = []"
      by (simp_all split: if_splits)
    with Code Cons.IH [of p] show ?thesis by simp
  qed
qed

lemma two_images_split:
  assumes "length (filter is_image chain) = 2"
  shows "\<exists>pre d1 mid d2 post.
           chain = pre @ Code ''image'' d1 # mid @ Code ''image'' d2 # post
         \<and> filter is_image (pre @ mid @ post) = []"
proof -
  from assms obtain i1 i2 where f: "filter is_image chain = [i1, i2]"
    by (cases "filter is_image chain" rule: list.exhaust; simp)
       (metis length_0_conv length_Suc_conv)
  from filter_eq_ConsD [OF f] obtain pre rest where c1: "chain = pre @ i1 # rest"
    and p: "\<forall>x\<in>set pre. \<not> is_image x" and i1: "is_image i1"
    and r: "filter is_image rest = [i2]"
    by metis
  from filter_eq_ConsD [OF r] obtain mid post where c2: "rest = mid @ i2 # post"
    and m: "\<forall>x\<in>set mid. \<not> is_image x" and i2: "is_image i2"
    and po: "filter is_image post = []"
    by metis
  from i1 obtain d1 where "i1 = Code ''image'' d1" by (cases i1) auto
  moreover from i2 obtain d2 where "i2 = Code ''image'' d2" by (cases i2) auto
  ultimately show ?thesis using c1 c2 p m po
    by (intro exI [of _ pre] exI [of _ d1] exI [of _ mid] exI [of _ d2] exI [of _ post])
       (auto simp: filter_empty_conv)
qed

lemma sendMsg_two_images_trace:
  assumes chain: "parseAll u msg = pre @ Code ''image'' d1 # mid @ Code ''image'' d2 # post"
    and noimg: "filter is_image (pre @ mid @ post) = []"
    and u1: "map_of d1 ''url'' = Some u1" "u1 \<noteq> []"
    and u2: "map_of d2 ''url'' = Some u2" "u2 \<noteq> []"
    and ok: "fst (priv_sendPhoto u b cid (texts (pre @ mid)) (Some u1) tr) = Inr r"
  shows "snd (sendMsg u b cid msg tr)
     = snd (priv_sendPhoto u b cid (texts post) (Some u2)
             (snd (priv_sendPhoto u b cid (texts (pre @ mid)) (Some u1) tr)))"
proof -
  from noimg have n: "filter is_image pre = []" "filter is_image mid = []"
    "filter is_image post = []" by simp_all
  obtain tr1 where s1: "priv_sendPhoto u b cid (texts (pre @ mid)) (Some u1) tr = (Inr r, tr1)"
    using ok by (cases "priv_sendPhoto u b cid (texts (pre @ mid)) (Some u1) tr") auto
  have l: "sendMsg_loop u b cid (parseAll u msg)
             \<lparr>chatId = cid, message = [], image' = Some []\<rparr> JUndefined tr
           = (Inr (\<lparr>chatId = cid, message = texts post, image' = Some u2\<rparr>, r), tr1)"
    using loop_no_image [OF n(3), of u b cid "[]"] s1 u1 u2
    by (simp add: chain loop_no_image [OF n(1)] loop_no_image [OF n(2)] texts_append)
  show ?thesis
    using u2 s1 by (simp add: sendMsg_def sendMsg_chain_def l split: prod.splits sum.splits)
qed

lemma loop_filter:
  "sendMsg_loop u b cid (filter text_or_image ns) p r tr = sendMsg_loop u b cid ns p r tr"
proof (induction u b cid ns p r tr rule: sendMsg_loop.induct)
  case (3 u b cid t d ns p result tr)
  then show ?case
    by (simp add: text_or_image_def split: prod.splits sum.splits)
qed (simp_all add: text_or_image_def)

lemma sendMsg_chain_throws: "\<exists>e. fst (sendMsg_chain u b cid chain tr) = Inl e"
proof -
  let ?l = "sendMsg_loop u b cid chain \<lparr>chatId = cid, message = [], image' = Some []\<rparr> JUndefined tr"
  obtain x tr1 where l: "?l = (x, tr1)" by (cases ?l)
  show ?thesis
  proof (cases x)
    case (Inl e)
    with l show ?thesis by (simp add: sendMsg_chain_def)
  next
    case (Inr pr)
    obtain p r where pr: "pr = (p, r)" by (cases pr)
    from l Inr pr have "fst ?l = Inr (p, r)" by simp
    then have "r = JUndefined" by (rule loop_result) simp
    with l Inr pr show ?thesis
      using priv_sendPhoto_result [of u b cid "message p" "image' p" tr1]
        priv_sendMsg_result [of u b cid "message p" tr1]
      by (auto simp: sendMsg_chain_def split: prod.splits sum.splits)
  qed
qed

lemma sendMsg_always_throws: "\<exists>e. fst (sendMsg u b cid msg tr) = Inl e"
  by (simp add: sendMsg_def sendMsg_chain_throws)

lemma quick_reply_in_time:
  assumes "prepare body = Some m" and "quickOperation options = Some q" and "0 < q"
    and "\<not> res_ended s"
  shows "map_sum id (\<lambda>s'. (res_head s', res_body s', res_ended s', timer_state s'))
           (call_session u stringify ''$response'' d (listen_handler prepare options body s))
         = Inr (Some (200, [(''Content-Type'', ''application/json'')]),
                res_body s @ [stringify (snakeCase u d)], True, Cleared)"
  using assms
  by (simp add: listen_handler_def defineProperty_def res_end_def assign_meta_def
      call_session_def response_callback_def res_write_def clearTimeout_def Let_def)

lemma quick_reply_timeout:
  assumes "prepare body = Some m" and "quickOperation options = Some q" and "0 < q"
  shows "res_body (timer_expiry (listen_handler prepare options body s)) = res_body s
       \<and> res_ended (timer_expiry (listen_handler prepare options body s))
       \<and> timer_state (timer_expiry (listen_handler prepare options body s)) = Fired
       \<and> meta_prop ''$response'' (timer_expiry (listen_handler prepare options body s))
           = Some PCallback"
  using assms
  by (simp add: listen_handler_def defineProperty_def res_end_def assign_meta_def
      timer_expiry_def timer_callback_def meta_prop_def Let_def)

lemma find_None_list_ex: "(find P xs = None) = (\<not> list_ex P xs)"
  by (induction xs) auto

lemma find_Some_list_ex: "find P xs = Some x \<Longrightarrow> list_ex P xs"
  by (induction xs) (auto split: if_splits)

section \<open>The request primitive\<close>

text \<open>
  C1. Whenever the remote end answers a call \<open>get(action, params, silent)\<close> with a
  response: retcode 0 and not silent returns the camel-cased data; a negative retcode
  and not silent throws a \<open>SenderError\<close>; a retcode greater than 1 throws a
  \<open>SenderError\<close> whatever \<open>silent\<close> is; retcode exactly 1 returns \<open>undefined\<close>;
  and under \<open>silent\<close>, retcode 0 and negative retcodes return \<open>undefined\<close>.
\<close>

theorem get_classifies_retcode:
  assumes "request b = Some req"
    and "req tr action (snakeCase u params) = Inr response"
  shows "(retcode response = 0 \<and> \<not> silent \<longrightarrow>
            fst (get u b action params silent tr) = Inr (camelCase u (data response)))
       \<and> (retcode response < 0 \<and> \<not> silent \<longrightarrow>
            fst (get u b action params silent tr)
              = Inl (SenderError params action (retcode response) (selfId b)))
       \<and> (retcode response > 1 \<longrightarrow>
            fst (get u b action params silent tr)
              = Inl (SenderError params action (retcode response) (selfId b)))
       \<and> (retcode response = 1 \<longrightarrow>
            fst (get u b action params silent tr) = Inr JUndefined)
       \<and> (silent \<and> retcode response \<le> 0 \<longrightarrow>
            fst (get u b action params silent tr) = Inr JUndefined)"
  using assms by (simp add: get_def Let_def)

theorem get_classifies_retcode_witness:
  "request (bot_with (remote_code 0)) = Some (remote_code 0)
   \<and> fst (get utils0 (bot_with (remote_code 0)) ''getMe'' (JObj []) False [])
       = Inr (JObj [(''messageId'', JNum 42)])
   \<and> fst (get utils0 (bot_with (remote_code (- 3))) ''getMe'' (JObj []) False [])
       = Inl (SenderError (JObj []) ''getMe'' (- 3) 7)
   \<and> fst (get utils0 (bot_with (remote_code 2)) ''getMe'' (JObj []) True [])
       = Inl (SenderError (JObj []) ''getMe'' 2 7)
   \<and> fst (get utils0 (bot_with (remote_code 1)) ''getMe'' (JObj []) False [])
       = Inr JUndefined
   \<and> fst (get utils0 (bot_with (remote_code (- 3))) ''getMe'' (JObj []) True [])
       = Inr JUndefined
   \<and> fst (get utils0 (bot_with (remote_code 0)) ''getMe'' (JObj []) True [])
       = Inr JUndefined"
  using
    get_classifies_retcode [where b = "bot_with (remote_code 0)" and req = "remote_code 0"
      and tr = "[]" and action = "''getMe''" and u = utils0 and params = "JObj []"
      and silent = False]
    get_classifies_retcode [where b = "bot_with (remote_code (- 3))"
      and req = "remote_code (- 3)" and tr = "[]" and action = "''getMe''" and u = utils0
      and params = "JObj []" and silent = False]
    get_classifies_retcode [where b = "bot_with (remote_code 2)" and req = "remote_code 2"
      and tr = "[]" and action = "''getMe''" and u = utils0 and params = "JObj []"
      and silent = True]
    get_classifies_retcode [where b = "bot_with (remote_code 1)" and req = "remote_code 1"
      and tr = "[]" and action = "''getMe''" and u = utils0 and params = "JObj []"
      and silent = False]
    get_classifies_retcode [where b = "bot_with (remote_code (- 3))"
      and req = "remote_code (- 3)" and tr = "[]" and action = "''getMe''" and u = utils0
      and params = "JObj []" and silent = True]
    get_classifies_retcode [where b = "bot_with (remote_code 0)" and req = "remote_code 0"
      and tr = "[]" and action = "''getMe''" and u = utils0 and params = "JObj []"
      and silent = True]
  by (simp add: bot_with_def remote_code_def utils0_def)

section \<open>Sending\<close>

text \<open>
  C2, as the code has it. Let the parsed chain of a message hold exactly two image
  codes \<open>i1\<close> and \<open>i2\<close>, both with a non-empty \<open>url\<close>, so that the chain is
  \<open>pre\<close>, \<open>i1\<close>, \<open>mid\<close>, \<open>i2\<close>, \<open>post\<close> (every chain with two image codes is of
  this form, by \<open>two_images_split\<close>), and let the send of the first image not throw.
  Then what \<open>sendMsg\<close> does is exactly two calls of \<open>_sendPhoto\<close> and none of
  \<open>_sendMsg\<close>: when \<open>i2\<close> is met, the buffered \<open>i1\<close> is flushed with the caption
  gathered so far, the text of \<open>pre\<close> and \<open>mid\<close>; after the loop the trailing \<open>i2\<close>
  is flushed with the text of \<open>post\<close>.
\<close>

theorem sendMsg_two_images:
  assumes two: "length (filter is_image (parseAll u msg)) = 2"
    and urls: "list_all has_url (filter is_image (parseAll u msg))"
    and shape: "parseAll u msg = pre @ i1 # mid @ i2 # post" "is_image i1" "is_image i2"
    and ok: "fst (priv_sendPhoto u b cid (texts (pre @ mid)) (image_url i1) tr) = Inr r"
  shows "snd (sendMsg u b cid msg tr)
           = snd (priv_sendPhoto u b cid (texts post) (image_url i2)
                   (snd (priv_sendPhoto u b cid (texts (pre @ mid)) (image_url i1) tr)))
       \<and> filter is_photo_call (snd (sendMsg u b cid msg tr))
           = filter is_photo_call tr
               @ [SendPhotoCall cid (texts (pre @ mid)) (image_url i1),
                  SendPhotoCall cid (texts post) (image_url i2)]
       \<and> filter is_msg_call (snd (sendMsg u b cid msg tr)) = filter is_msg_call tr
       \<and> photo_calls (snd (sendMsg u b cid msg tr)) = photo_calls tr + 2
       \<and> msg_calls (snd (sendMsg u b cid msg tr)) = msg_calls tr"
proof -
  from two shape have noimg: "filter is_image (pre @ mid @ post) = []"
    by simp
  from shape(2) obtain d1 where i1: "i1 = Code ''image'' d1" by (cases i1) auto
  from shape(3) obtain d2 where i2: "i2 = Code ''image'' d2" by (cases i2) auto
  from urls shape i1 i2 have t: "truthy (map_of d1 ''url'')" "truthy (map_of d2 ''url'')"
    by (simp_all add: has_url_def)
  from t(1) obtain u1 where u1: "map_of d1 ''url'' = Some u1" "u1 \<noteq> []"
    by (cases "map_of d1 ''url''") auto
  from t(2) obtain u2 where u2: "map_of d2 ''url'' = Some u2" "u2 \<noteq> []"
    by (cases "map_of d2 ''url''") auto
  have tr: "snd (sendMsg u b cid msg tr)
           = snd (priv_sendPhoto u b cid (texts post) (image_url i2)
                   (snd (priv_sendPhoto u b cid (texts (pre @ mid)) (image_url i1) tr)))"
    using sendMsg_two_images_trace [of u msg pre d1 mid d2 post u1 u2 b cid tr r]
      shape(1) noimg u1 u2 ok i1 i2 by simp
  then show ?thesis
    by (simp add: priv_sendPhoto_filter photo_calls_def msg_calls_def)
qed

theorem sendMsg_two_images_witness:
  "length (filter is_image (parseAll (utils_chain chain_urls) ''m'')) = 2
   \<and> list_all has_url (filter is_image (parseAll (utils_chain chain_urls) ''m''))
   \<and> parseAll (utils_chain chain_urls) ''m''
       = [Text ''a''] @ Code ''image'' [(''url'', ''u1'')] # [Text ''b'']
           @ Code ''image'' [(''url'', ''u2'')] # [Text ''c'']
   \<and> fst (priv_sendPhoto (utils_chain chain_urls) (bot_with (remote_code 0)) (JNum 1)
            ''ab'' (Some ''u1'') []) = Inr JUndefined
   \<and> filter is_photo_call
        (snd (sendMsg (utils_chain chain_urls) (bot_with (remote_code 0)) (JNum 1) ''m'' []))
       = [SendPhotoCall (JNum 1) ''ab'' (Some ''u1''), SendPhotoCall (JNum 1) ''c'' (Some ''u2'')]
   \<and> filter is_msg_call
        (snd (sendMsg (utils_chain chain_urls) (bot_with (remote_code 0)) (JNum 1) ''m'' []))
       = []
   \<and> photo_calls
        (snd (sendMsg (utils_chain chain_urls) (bot_with (remote_code 0)) (JNum 1) ''m'' []))
       = 2
   \<and> msg_calls
        (snd (sendMsg (utils_chain chain_urls) (bot_with (remote_code 0)) (JNum 1) ''m'' []))
       = 0"
proof -
  have a: "length (filter is_image (parseAll (utils_chain chain_urls) ''m'')) = 2"
    by (simp add: utils_chain_def chain_urls_def)
  have b: "list_all has_url (filter is_image (parseAll (utils_chain chain_urls) ''m''))"
    by (simp add: utils_chain_def chain_urls_def has_url_def)
  have c: "parseAll (utils_chain chain_urls) ''m''
       = [Text ''a''] @ Code ''image'' [(''url'', ''u1'')] # [Text ''b'']
           @ Code ''image'' [(''url'', ''u2'')] # [Text ''c'']"
    by (simp add: utils_chain_def chain_urls_def)
  have i: "is_image (Code ''image'' [(''url'', ''u1'')])" "is_image (Code ''image'' [(''url'', ''u2'')])"
    by simp_all
  have d: "fst (priv_sendPhoto (utils_chain chain_urls) (bot_with (remote_code 0)) (JNum 1)
            (texts ([Text ''a''] @ [Text ''b''])) (image_url (Code ''image'' [(''url'', ''u1'')])) [])
          = Inr JUndefined"
    by (simp add: priv_sendPhoto_def get_def bot_with_def remote_code_def utils_chain_def)
  have z: "photo_calls [] = 0" "msg_calls [] = 0"
    by (simp_all add: photo_calls_def msg_calls_def)
  from sendMsg_two_images [OF a b c i d, THEN conjunct2] a b c d z
  show ?thesis by simp
qed

text \<open>
  An image code without a \<open>url\<close> (one addressed by \<open>file\<close>) is not buffered:
  \<open>payload.image\<close> stays falsy. The chain below has text around exactly two image
  codes, every text next to an image, and \<open>sendMsg\<close> enters \<open>_sendPhoto\<close> once.
\<close>

theorem sendMsg_two_images_counterexample:
  "length (filter is_image chain_file) = 2
   \<and> list_all text_or_image chain_file
   \<and> text_adjacent None chain_file
   \<and> snd (sendMsg (utils_chain chain_file) (bot_with (remote_code 0)) (JNum 1) ''m'' [])
       = [SendPhotoCall (JNum 1) ''abc'' (Some ''u2''),
          Request ''send_photo''
            (JObj [(''chatId'', JNum 1), (''caption'', JStr ''abc''), (''photo'', JStr ''u2'')])]
   \<and> photo_calls (snd (sendMsg (utils_chain chain_file) (bot_with (remote_code 0))
         (JNum 1) ''m'' [])) = 1"
  by (simp add: chain_file_def text_or_image_def sendMsg_def sendMsg_chain_def utils_chain_def
      priv_sendPhoto_def get_def bot_with_def remote_code_def photo_calls_def Let_def)

text \<open>
  C3 says that \<open>sendMsg\<close> returns the \<open>messageId\<close> of the last successful send.
  \<open>_sendMsg\<close> and \<open>_sendPhoto\<close> drop what \<open>get\<close> returns, so \<open>result\<close> is
  \<open>undefined\<close> and \<open>result.messageId\<close> throws: for the message \<open>hello\<close>, which the
  remote end accepts with \<open>messageId\<close> 42, \<open>sendMsg\<close> ends in a \<open>TypeError\<close> after
  the send.
\<close>

theorem sendMsg_loses_messageId:
  "fst (get utils0 (bot_with (remote_code 0)) ''send_message''
         (JObj [(''chatId'', JNum 1), (''message'', JStr ''hello'')]) False
         [SendMsgCall (JNum 1) ''hello''])
     = Inr (JObj [(''messageId'', JNum 42)])
   \<and> sendMsg utils0 (bot_with (remote_code 0)) (JNum 1) ''hello'' []
     = (Inl TypeError,
        [SendMsgCall (JNum 1) ''hello'',
         Request ''send_message'' (JObj [(''chatId'', JNum 1), (''message'', JStr ''hello'')])])"
  by (simp add: sendMsg_def sendMsg_chain_def utils0_def priv_sendMsg_def get_def bot_with_def
      remote_code_def Let_def)

section \<open>The webhook handler\<close>

text \<open>
  C4 says that the timer, on expiry, clears the callback attached to the session. The
  handler attaches the callback as \<open>$response\<close>, while the callback and the timer assign
  \<open>null\<close> to \<open>_response\<close>, the property that the \<open>Session\<close> declaration names.
  With \<open>quickOperation = 100\<close>: after the handler \<open>$response\<close> holds the callback and
  \<open>_response\<close> is absent; after the expiry of the timer the response has ended with
  an empty body, \<open>_response\<close> is \<open>null\<close> and \<open>$response\<close> still holds the
  callback; and after a call of \<open>$response\<close> it still holds the callback.
\<close>

theorem quick_reply_callback_not_cleared:
  "timer_state (listen_handler prepare0 (options_with (Some 8080) [bot_typed] (Some 100))
      ''update'' state0) = Armed 100
   \<and> meta_prop ''$response'' (listen_handler prepare0
        (options_with (Some 8080) [bot_typed] (Some 100)) ''update'' state0) = Some PCallback
   \<and> meta_prop ''_response'' (listen_handler prepare0
        (options_with (Some 8080) [bot_typed] (Some 100)) ''update'' state0) = None
   \<and> meta_prop ''$response'' (timer_expiry (listen_handler prepare0
        (options_with (Some 8080) [bot_typed] (Some 100)) ''update'' state0)) = Some PCallback
   \<and> meta_prop ''_response'' (timer_expiry (listen_handler prepare0
        (options_with (Some 8080) [bot_typed] (Some 100)) ''update'' state0)) = Some PNull
   \<and> res_ended (timer_expiry (listen_handler prepare0
        (options_with (Some 8080) [bot_typed] (Some 100)) ''update'' state0))
   \<and> res_body (timer_expiry (listen_handler prepare0
        (options_with (Some 8080) [bot_typed] (Some 100)) ''update'' state0)) = []
   \<and> map_sum id (meta_prop ''$response'')
        (call_session utils0 stringify0 ''$response'' (JStr ''reply'')
          (listen_handler prepare0 (options_with (Some 8080) [bot_typed] (Some 100))
             ''update'' state0)) = Inr (Some PCallback)"
  by (simp add: listen_handler_def prepare0_def options_with_def state0_def defineProperty_def
      meta_prop_def timer_expiry_def timer_callback_def res_end_def assign_meta_def
      call_session_def response_callback_def res_write_def clearTimeout_def Let_def)

text \<open>
  C5. When \<open>prepare\<close> yields nothing for the request body, the handler sets the status
  403 and dispatches nothing; when it yields a session, the handler dispatches that
  session exactly once, whatever \<open>quickOperation\<close> is.
\<close>

theorem listen_handler_dispatch:
  "(prepare body = None \<longrightarrow>
      ctx_status (listen_handler prepare options body s) = Some 403
      \<and> dispatched (listen_handler prepare options body s) = dispatched s)
   \<and> (\<forall>m. prepare body = Some m \<longrightarrow>
      (\<exists>m'. dispatched (listen_handler prepare options body s) = dispatched s @ [m']
          \<and> content m' = content m
          \<and> meta (listen_handler prepare options body s) = Some m'))"
  by (simp add: listen_handler_def defineProperty_def Let_def split: option.splits)

theorem listen_handler_dispatch_witness:
  "prepare0 [] = None
   \<and> ctx_status (listen_handler prepare0 (options_with (Some 8080) [bot_typed] (Some 100)) [] state0)
       = Some 403
   \<and> dispatched (listen_handler prepare0 (options_with (Some 8080) [bot_typed] (Some 100)) [] state0)
       = []
   \<and> prepare0 ''update'' = Some \<lparr>content = ''update'', props = Map.empty\<rparr>
   \<and> map content
        (dispatched (listen_handler prepare0 (options_with (Some 8080) [bot_typed] (Some 100))
           ''update'' state0)) = [''update'']
   \<and> map content
        (dispatched (listen_handler prepare0 (options_with (Some 8080) [bot_typed] None)
           ''update'' state0)) = [''update'']"
  using
    listen_handler_dispatch [of prepare0 "[]" "options_with (Some 8080) [bot_typed] (Some 100)" state0]
    listen_handler_dispatch [of prepare0 "''update''"
      "options_with (Some 8080) [bot_typed] (Some 100)" state0]
    listen_handler_dispatch [of prepare0 "''update''"
      "options_with (Some 8080) [bot_typed] None" state0]
  by (auto simp: prepare0_def state0_def)

section \<open>Empty messages\<close>

text \<open>
  C6. \<open>sendGroupMsg\<close> and \<open>sendPrivateMsg\<close> with an empty message return
  \<open>undefined\<close> and leave the trace as it was: no remote call, no host event.
\<close>

theorem send_empty_message:
  "sendGroupMsg h u b cid [] tr = (Inr JUndefined, tr)
   \<and> sendPrivateMsg h u b cid [] tr = (Inr JUndefined, tr)
   \<and> remote_calls (snd (sendGroupMsg h u b cid [] tr)) = remote_calls tr
   \<and> remote_calls (snd (sendPrivateMsg h u b cid [] tr)) = remote_calls tr"
  by (simp add: sendGroupMsg_def sendPrivateMsg_def)

section \<open>Construction of the server\<close>

text \<open>
  C7, as the code has it. The constructor fails when no port is configured and when no
  bot entry has a \<open>server\<close>; when a port is configured and some bot entry has a
  \<open>server\<close>, it goes on to the constructor of the superclass, and the first such entry
  decides what is logged: the line \<open>infer type as telegram\<close> when its type is not
  configured, nothing when it is.
\<close>

theorem constructor_validates_port_and_server:
  "(port options = None \<longrightarrow>
      (\<exists>e. TelegramHTTPServer_constructor super options = ([], Inl e)))
   \<and> (\<not> list_ex has_server (bots options) \<longrightarrow>
      (\<exists>e. TelegramHTTPServer_constructor super options = ([], Inl e)))
   \<and> (port options \<noteq> None \<and> list_ex has_server (bots options) \<longrightarrow>
      snd (TelegramHTTPServer_constructor super options) = super options)
   \<and> (\<forall>bo. port options \<noteq> None \<and> find has_server (bots options) = Some bo \<longrightarrow>
      TelegramHTTPServer_constructor super options
        = ((if has_type bo then [] else [''infer type as telegram'']), super options))"
  by (auto simp: TelegramHTTPServer_constructor_def assertProperty_def find_None_list_ex
      dest: find_Some_list_ex split: option.splits sum.splits)

theorem constructor_validates_port_and_server_witness:
  "port (options_with None [bot_typed] None) = None
   \<and> TelegramHTTPServer_constructor super_ok (options_with None [bot_typed] None)
       = ([], Inl (Thrown ''missing configuration port''))
   \<and> \<not> list_ex has_server (bots (options_with (Some 8080) [bot_serverless] None))
   \<and> TelegramHTTPServer_constructor super_ok (options_with (Some 8080) [bot_serverless] None)
       = ([], Inl TypeError)
   \<and> port (options_with (Some 8080) [bot_serverless, bot_untyped] None) \<noteq> None
   \<and> list_ex has_server (bots (options_with (Some 8080) [bot_serverless, bot_untyped] None))
   \<and> find has_server (bots (options_with (Some 8080) [bot_serverless, bot_untyped] None))
       = Some bot_untyped
   \<and> \<not> has_type bot_untyped
   \<and> TelegramHTTPServer_constructor super_ok
        (options_with (Some 8080) [bot_serverless, bot_untyped] None)
       = ([''infer type as telegram''], Inr ())
   \<and> port (options_with (Some 8080) [bot_typed] None) \<noteq> None
   \<and> find has_server (bots (options_with (Some 8080) [bot_typed] None)) = Some bot_typed
   \<and> has_type bot_typed
   \<and> TelegramHTTPServer_constructor super_ok (options_with (Some 8080) [bot_typed] None)
       = ([], Inr ())"
proof -
  have f1: "find has_server (bots (options_with (Some 8080) [bot_serverless, bot_untyped] None))
       = Some bot_untyped"
    and f2: "find has_server (bots (options_with (Some 8080) [bot_typed] None)) = Some bot_typed"
    and p1: "port (options_with (Some 8080) [bot_serverless, bot_untyped] None) \<noteq> None"
    and p2: "port (options_with (Some 8080) [bot_typed] None) \<noteq> None"
    and t1: "\<not> has_type bot_untyped" and t2: "has_type bot_typed"
    by (simp_all add: options_with_def bot_typed_def bot_serverless_def bot_untyped_def
        has_server_def has_type_def)
  have n1: "port (options_with None [bot_typed] None) = None"
    and n2: "\<not> list_ex has_server (bots (options_with (Some 8080) [bot_serverless] None))"
    and n3: "list_ex has_server (bots (options_with (Some 8080) [bot_serverless, bot_untyped] None))"
    by (simp_all add: options_with_def bot_serverless_def bot_untyped_def has_server_def)
  have e1: "TelegramHTTPServer_constructor super_ok (options_with None [bot_typed] None)
       = ([], Inl (Thrown ''missing configuration port''))"
    and e2: "TelegramHTTPServer_constructor super_ok
        (options_with (Some 8080) [bot_serverless] None) = ([], Inl TypeError)"
    by (simp_all add: options_with_def bot_serverless_def has_server_def
        TelegramHTTPServer_constructor_def assertProperty_def)
  from
    constructor_validates_port_and_server [of "options_with None [bot_typed] None" super_ok]
    constructor_validates_port_and_server
      [of "options_with (Some 8080) [bot_serverless] None" super_ok]
    constructor_validates_port_and_server
      [of "options_with (Some 8080) [bot_serverless, bot_untyped] None" super_ok]
    constructor_validates_port_and_server
      [of "options_with (Some 8080) [bot_typed] None" super_ok]
    f1 f2 p1 p2 t1 t2 n1 n2 n3 e1 e2
  show ?thesis by (simp add: super_ok_def)
qed

text \<open>
  The type of the bot is not validated: with a port and one bot entry that has a
  \<open>server\<close> and a configured \<open>type\<close>, no bot entry without a type exists and the
  construction succeeds.
\<close>

theorem constructor_type_counterexample:
  "port (options_with (Some 8080) [bot_typed] None) = Some 8080
   \<and> list_all has_type (bots (options_with (Some 8080) [bot_typed] None))
   \<and> TelegramHTTPServer_constructor super_ok (options_with (Some 8080) [bot_typed] None)
       = ([], Inr ())"
  by (simp add: options_with_def bot_typed_def has_type_def has_server_def super_ok_def
      TelegramHTTPServer_constructor_def assertProperty_def)

section \<open>The liveness probe\<close>

text \<open>
  C8. On a ready bot, \<open>getStatusCode\<close> returns \<open>NET_ERROR\<close> whenever the probe
  \<open>get('getMe')\<close> throws, in particular when the transport under it throws, and
  \<open>GOOD\<close> whenever the probe returns; \<open>getStatusCode\<close> itself has no error
  outcome.
\<close>

theorem getStatusCode_probe:
  assumes "ready b"
  shows "(\<forall>e. fst (get u b ''getMe'' (JObj []) False tr) = Inl e
            \<longrightarrow> fst (getStatusCode u b tr) = NET_ERROR)
       \<and> (\<forall>req e. request b = Some req \<and> req tr ''getMe'' (snakeCase u (JObj [])) = Inl e
            \<longrightarrow> fst (getStatusCode u b tr) = NET_ERROR)
       \<and> (\<forall>v. fst (get u b ''getMe'' (JObj []) False tr) = Inr v
            \<longrightarrow> fst (getStatusCode u b tr) = GOOD)"
  using assms
  by (auto simp: getStatusCode_def get_def Let_def split: prod.splits sum.splits option.splits)

theorem getStatusCode_probe_witness:
  "ready (bot_with remote_down)
   \<and> fst (get utils0 (bot_with remote_down) ''getMe'' (JObj []) False [])
       = Inl (Thrown ''ECONNREFUSED'')
   \<and> fst (getStatusCode utils0 (bot_with remote_down) []) = NET_ERROR
   \<and> ready (bot_with (remote_code 0))
   \<and> fst (get utils0 (bot_with (remote_code 0)) ''getMe'' (JObj []) False [])
       = Inr (JObj [(''messageId'', JNum 42)])
   \<and> fst (getStatusCode utils0 (bot_with (remote_code 0)) []) = GOOD"
proof -
  have r1: "ready (bot_with remote_down)" and r2: "ready (bot_with (remote_code 0))"
    by (simp_all add: bot_with_def)
  have g1: "fst (get utils0 (bot_with remote_down) ''getMe'' (JObj []) False [])
       = Inl (Thrown ''ECONNREFUSED'')"
    by (simp add: get_def bot_with_def remote_down_def utils0_def)
  have g2: "fst (get utils0 (bot_with (remote_code 0)) ''getMe'' (JObj []) False [])
       = Inr (JObj [(''messageId'', JNum 42)])"
    by (simp add: get_def bot_with_def remote_code_def utils0_def)
  from getStatusCode_probe [OF r1, of utils0 "[]"] getStatusCode_probe [OF r2, of utils0 "[]"]
    r1 r2 g1 g2
  show ?thesis by simp
qed

section \<open>The lookup of the bot\<close>

text \<open>
  C9, as the code has it. When the assertion on the port passes: if no bot entry has a
  truthy \<open>server\<close>, the constructor throws a \<open>TypeError\<close> before \<open>super(app)\<close>; if
  some entry has one, the constructor goes on to \<open>super(app)\<close> whether or not the type of
  the bot found is configured, which only decides the line logged.
\<close>

theorem constructor_server_lookup:
  assumes "assertProperty (port options) ''port'' = Inr p"
  shows "(\<not> list_ex has_server (bots options) \<longrightarrow>
            TelegramHTTPServer_constructor super options = ([], Inl TypeError))
       \<and> (\<forall>bo. find has_server (bots options) = Some bo \<longrightarrow>
            TelegramHTTPServer_constructor super options
              = ((if has_type bo then [] else [''infer type as telegram'']), super options))
       \<and> (list_ex has_server (bots options) \<longrightarrow>
            snd (TelegramHTTPServer_constructor super options) = super options)"
  using assms
  by (auto simp: TelegramHTTPServer_constructor_def find_None_list_ex
      dest: find_Some_list_ex split: option.splits sum.splits)

theorem constructor_server_lookup_witness:
  "assertProperty (port (options_with (Some 8080) [bot_serverless] None)) ''port'' = Inr 8080
   \<and> \<not> list_ex has_server (bots (options_with (Some 8080) [bot_serverless] None))
   \<and> TelegramHTTPServer_constructor super_ok (options_with (Some 8080) [bot_serverless] None)
       = ([], Inl TypeError)
   \<and> find has_server (bots (options_with (Some 8080) [bot_serverless, bot_untyped] None))
       = Some bot_untyped
   \<and> TelegramHTTPServer_constructor super_ok
        (options_with (Some 8080) [bot_serverless, bot_untyped] None)
       = ([''infer type as telegram''], Inr ())
   \<and> find has_server (bots (options_with (Some 8080) [bot_typed] None)) = Some bot_typed
   \<and> TelegramHTTPServer_constructor super_ok (options_with (Some 8080) [bot_typed] None)
       = ([], Inr ())"
proof -
  have a: "assertProperty (port (options_with (Some 8080) [bot_serverless] None)) ''port''
            = Inr 8080"
    and b: "assertProperty (port (options_with (Some 8080) [bot_serverless, bot_untyped] None))
              ''port'' = Inr 8080"
    and c: "assertProperty (port (options_with (Some 8080) [bot_typed] None)) ''port''
              = Inr 8080"
    by (simp_all add: options_with_def assertProperty_def)
  from constructor_server_lookup [OF a, of super_ok]
    constructor_server_lookup [OF b, of super_ok]
    constructor_server_lookup [OF c, of super_ok] a
  show ?thesis
    by (simp add: options_with_def bot_typed_def bot_serverless_def bot_untyped_def
        has_server_def has_type_def super_ok_def)
qed

text \<open>
  Without a configured port the assertion on the port throws first: the error is not a
  \<open>TypeError\<close>, and a bot entry with a \<open>server\<close> does not let the construction
  go on.
\<close>

theorem constructor_server_lookup_counterexample:
  "\<not> list_ex has_server (bots (options_with None [] None))
   \<and> TelegramHTTPServer_constructor super_ok (options_with None [] None)
       = ([], Inl (Thrown ''missing configuration port''))
   \<and> list_ex has_server (bots (options_with None [bot_typed] None))
   \<and> TelegramHTTPServer_constructor super_ok (options_with None [bot_typed] None)
       = ([], Inl (Thrown ''missing configuration port''))"
  by (simp add: options_with_def bot_typed_def has_server_def super_ok_def
      TelegramHTTPServer_constructor_def assertProperty_def)

section \<open>Segments that are neither text nor image\<close>

text \<open>
  C10. \<open>sendMsg\<close> behaves on a message exactly as on its chain without the segments
  that are neither text nor an image code: result and trace are the same, so such
  segments add nothing to the caption or the buffered image and cause no send.
\<close>

theorem sendMsg_discards_other_segments:
  "sendMsg u b cid msg tr = sendMsg_chain u b cid (filter text_or_image (parseAll u msg)) tr"
  by (simp add: sendMsg_def sendMsg_chain_def loop_filter)

theorem sendMsg_discards_other_segments_witness:
  "filter text_or_image (parseAll (utils_chain chain_mixed) ''m'')
     = [Text ''a'', Code ''image'' [(''url'', ''u1'')]]
   \<and> snd (sendMsg (utils_chain chain_mixed) (bot_with (remote_code 0)) (JNum 1) ''m'' [])
     = [SendPhotoCall (JNum 1) ''a'' (Some ''u1''),
        Request ''send_photo''
          (JObj [(''chatId'', JNum 1), (''caption'', JStr ''a''), (''photo'', JStr ''u1'')])]"
  using sendMsg_discards_other_segments
    [of "utils_chain chain_mixed" "bot_with (remote_code 0)" "JNum 1" "''m''" "[]"]
  by (simp add: chain_mixed_def text_or_image_def sendMsg_chain_def utils_chain_def
      priv_sendPhoto_def get_def bot_with_def remote_code_def Let_def)

end
